theory Spec2Isabelle
  imports Main "HOL-Library.Word"
begin

section \<open>Go values used by the asset-transfer chaincode\<close>

text \<open>
  The repository holds two variants of one Hyperledger Fabric chaincode. The role-gated
  variant (\<^verbatim>\<open>src/chaincode-assettransfer.go\<close>) stores one JSON record per user under
  the key \<^verbatim>\<open>"_joinedUsers_" + id\<close> and resolves the invoker's role on every
  \<^verbatim>\<open>Invoke\<close>. The older variant without roles (\<^verbatim>\<open>src/unnamed/part_000\<close>) stores each
  balance as decimal text under the bare id. Both are modelled below, over the same model
  of the stub. Go's \<^verbatim>\<open>int\<close> is taken to be 64 bits wide: \<open>+\<close> and \<open>-\<close> on
  \<open>64 word\<close> wrap around as Go's do, and \<open><s\<close> is the signed comparison. Printing to
  the log (\<^verbatim>\<open>fmt.Println\<close>) has no effect on the results and is left out.
\<close>

record user =
  Id_user :: string
  Role :: string
  AssetBalance :: "64 word"

text \<open>
  Byte slices, as far as the chaincode can tell them apart. The chaincode only ever looks
  at a value of the world state through \<^verbatim>\<open>json.Unmarshal\<close>, so a byte slice is
  represented by what it is:
  \<^item> \<open>Nil_bytes\<close>: the nil (empty) slice, which is also what \<^verbatim>\<open>GetState\<close> yields for a
    key that was never written;
  \<^item> \<open>Json_null\<close>: the text \<^verbatim>\<open>null\<close>, which \<^verbatim>\<open>json.Marshal\<close> writes for a nil slice;
  \<^item> \<open>Json_user u\<close>: the JSON object \<^verbatim>\<open>json.Marshal\<close> writes for the struct \<open>u\<close>;
  \<^item> \<open>Json_strings xs\<close>: the JSON array of the strings \<open>xs\<close>;
  \<^item> \<open>Json_number s\<close>: the decimal text \<open>s\<close> of an integer, as \<^verbatim>\<open>strconv.Itoa\<close> writes it;
  \<^item> \<open>Other_bytes raw diag\<close>: any other content \<open>raw\<close>, which decodes neither to a user
    nor to a list of strings; \<open>diag\<close> is the text of the error \<^verbatim>\<open>json.Unmarshal\<close>
    reports for it.
  User ids are taken to be valid UTF-8, so that marshalling followed by unmarshalling
  gives the value back.
\<close>

datatype bytes =
    Nil_bytes
  | Json_null
  | Json_user user
  | Json_strings "string list"
  | Json_number string
  | Other_bytes string string

text \<open>
  A value of type \<^verbatim>\<open>interface{}\<close> as \<^verbatim>\<open>recover()\<close> returns it: nil when the goroutine is
  not panicking, the string given to \<^verbatim>\<open>panic\<close>, or a run-time error raised by the Go
  runtime itself. The only run-time error the chaincode can raise is a failed type
  assertion.
\<close>

datatype runtime_error = TypeAssertionError

datatype iface = Nil_iface | String_iface string | Runtime_iface runtime_error

text \<open>A call either returns its results or panics with a value.\<close>

datatype 'a outcome = Return 'a | Panic iface

section \<open>The library functions the chaincode calls\<close>

subsection \<open>strings and strconv\<close>

text \<open>\<^verbatim>\<open>strings.Index(s, substr)\<close>: the index of the first instance of \<open>substr\<close> in \<open>s\<close>, or -1.\<close>

fun strings_Index :: "string \<Rightarrow> string \<Rightarrow> int" where
  "strings_Index [] substr = (if substr = [] then 0 else - 1)"
| "strings_Index (c # cs) substr =
     (if take (length substr) (c # cs) = substr then 0
      else (let r = strings_Index cs substr in if r < 0 then - 1 else r + 1))"

definition digit_of :: "char \<Rightarrow> int option" where
  "digit_of c =
     (let n = (of_char c :: int) in if 48 \<le> n \<and> n \<le> 57 then Some (n - 48) else None)"

fun digits_value :: "string \<Rightarrow> int \<Rightarrow> int option" where
  "digits_value [] acc = Some acc"
| "digits_value (c # cs) acc =
     (case digit_of c of None \<Rightarrow> None | Some d \<Rightarrow> digits_value cs (acc * 10 + d))"

text \<open>
  \<^verbatim>\<open>strconv.Atoi\<close> on a 64-bit platform: an optional sign, then one or more decimal
  digits, and the value must fit a signed 64-bit integer. \<open>None\<close> stands for a non-nil
  error (the chaincode never looks at which one).
\<close>

definition Atoi :: "string \<Rightarrow> 64 word option" where
  "Atoi s =
     (case s of
        [] \<Rightarrow> None
      | c # cs \<Rightarrow>
          (let neg = (c = CHR ''-'');
               ds = (if c = CHR ''-'' \<or> c = CHR ''+'' then cs else s)
           in if ds = [] then None
              else (case digits_value ds 0 of
                      None \<Rightarrow> None
                    | Some n \<Rightarrow>
                        if neg
                          then (if n \<le> 9223372036854775808 then Some (word_of_int (- n)) else None)
                        else (if n < 9223372036854775808 then Some (word_of_int n) else None))))"

text \<open>The decimal digits of a non-negative integer, most significant first.\<close>

function decimal :: "int \<Rightarrow> string" where
  "decimal n =
     (if n < 10 then [char_of (48 + n)]
      else decimal (n div 10) @ [char_of (48 + n mod 10)])"
  by pat_completeness auto
termination
  by (relation "measure nat") auto

declare decimal.simps [simp del]

text \<open>\<^verbatim>\<open>strconv.Itoa\<close>: the decimal text of a signed integer.\<close>

definition Itoa :: "64 word \<Rightarrow> string" where
  "Itoa i = (if sint i < 0 then CHR ''-'' # decimal (- sint i) else decimal (sint i))"

text \<open>
  The conversion \<^verbatim>\<open>string(i)\<close> of an integer: the UTF-8 encoding of the code point \<open>i\<close>,
  and of U+FFFD when \<open>i\<close> is not a valid code point. The chaincode uses it (where
  \<^verbatim>\<open>strconv.Itoa\<close> was probably meant) inside some of its messages.
\<close>

definition string_of_rune :: "64 word \<Rightarrow> string" where
  "string_of_rune i =
     (let r = sint i in
      if r < 0 \<or> 1114111 < r \<or> (55296 \<le> r \<and> r \<le> 57343)
        then [char_of (239 :: int), char_of (191 :: int), char_of (189 :: int)]
      else if r < 128 then [char_of r]
      else if r < 2048 then [char_of (192 + r div 64), char_of (128 + r mod 64)]
      else if r < 65536
        then [char_of (224 + r div 4096), char_of (128 + (r div 64) mod 64),
              char_of (128 + r mod 64)]
      else [char_of (240 + r div 262144), char_of (128 + (r div 4096) mod 64),
            char_of (128 + (r div 64) mod 64), char_of (128 + r mod 64)])"

subsection \<open>encoding/json\<close>

text \<open>
  \<^verbatim>\<open>json.Marshal\<close> cannot fail on a struct of two strings and an integer, nor on a slice of
  strings, so the model has no error result for it and the chaincode's branches on a
  marshalling error are left out. A nil slice is written as \<^verbatim>\<open>null\<close>.
\<close>

definition json_Marshal_user :: "user \<Rightarrow> bytes" where
  "json_Marshal_user u = Json_user u"

definition json_Marshal_strings :: "string list \<Rightarrow> bytes" where
  "json_Marshal_strings xs = (if xs = [] then Json_null else Json_strings xs)"

text \<open>
  \<^verbatim>\<open>json.Unmarshal\<close> into a zero \<^verbatim>\<open>user\<close>: \<open>Inl\<close> carries the text of the error. Empty
  input is an error (\<^verbatim>\<open>unexpected end of JSON input\<close>); \<^verbatim>\<open>null\<close> leaves the struct at
  its zero value and is no error.
\<close>

fun json_Unmarshal_user :: "bytes \<Rightarrow> string + user" where
  "json_Unmarshal_user Nil_bytes = Inl ''unexpected end of JSON input''"
| "json_Unmarshal_user Json_null = Inr \<lparr>Id_user = [], Role = [], AssetBalance = 0\<rparr>"
| "json_Unmarshal_user (Json_user u) = Inr u"
| "json_Unmarshal_user (Json_strings xs) =
     Inl ''json: cannot unmarshal array into Go value of type main.user''"
| "json_Unmarshal_user (Json_number s) =
     Inl ''json: cannot unmarshal number into Go value of type main.user''"
| "json_Unmarshal_user (Other_bytes raw diag) = Inl diag"

text \<open>\<^verbatim>\<open>json.Unmarshal\<close> into a nil \<^verbatim>\<open>[]string\<close>; \<open>None\<close> stands for a non-nil error.\<close>

fun json_Unmarshal_strings :: "bytes \<Rightarrow> string list option" where
  "json_Unmarshal_strings Json_null = Some []"
| "json_Unmarshal_strings (Json_strings xs) = Some xs"
| "json_Unmarshal_strings Nil_bytes = None"
| "json_Unmarshal_strings (Json_user u) = None"
| "json_Unmarshal_strings (Json_number s) = None"
| "json_Unmarshal_strings (Other_bytes raw diag) = None"

subsection \<open>The chaincode stub: world state with store faults\<close>

text \<open>
  The stub is the chaincode's only access to the ledger. Its model holds the world state
  (\<open>world\<close>), the log of the accessor calls made so far (\<open>calls\<close>), the faults of the
  store (\<open>faults n = Some e\<close>: the accessor call number \<open>n\<close>, counted from 0 in the order
  of \<open>calls\<close>, fails with the error text \<open>e\<close>), and the result of reading the invoker's
  certificate attribute \<^verbatim>\<open>username\<close> (\<open>Inl\<close> an error text, \<open>Inr\<close> the name).
  A write that the store accepts takes effect at once; a failing call changes nothing.
  Reading a key that was never written gives the nil slice and no error, as the Fabric
  shim does.
\<close>

datatype stub_call =
    GetState_call string
  | PutState_call string bytes
  | DelState_call string

record stub =
  world :: "string \<rightharpoonup> bytes"
  faults :: "nat \<Rightarrow> string option"
  calls :: "stub_call list"
  username_attr :: "string + string"

definition GetState :: "string \<Rightarrow> stub \<Rightarrow> (bytes \<times> string option) \<times> stub" where
  "GetState key s =
     (case faults s (length (calls s)) of
        Some e \<Rightarrow> ((Nil_bytes, Some e), s\<lparr>calls := calls s @ [GetState_call key]\<rparr>)
      | None \<Rightarrow>
          (((case world s key of None \<Rightarrow> Nil_bytes | Some v \<Rightarrow> v), None),
           s\<lparr>calls := calls s @ [GetState_call key]\<rparr>))"

definition PutState :: "string \<Rightarrow> bytes \<Rightarrow> stub \<Rightarrow> string option \<times> stub" where
  "PutState key v s =
     (case faults s (length (calls s)) of
        Some e \<Rightarrow> (Some e, s\<lparr>calls := calls s @ [PutState_call key v]\<rparr>)
      | None \<Rightarrow>
          (None, s\<lparr>world := (world s)(key \<mapsto> v), calls := calls s @ [PutState_call key v]\<rparr>))"

definition DelState :: "string \<Rightarrow> stub \<Rightarrow> string option \<times> stub" where
  "DelState key s =
     (case faults s (length (calls s)) of
        Some e \<Rightarrow> (Some e, s\<lparr>calls := calls s @ [DelState_call key]\<rparr>)
      | None \<Rightarrow>
          (None, s\<lparr>world := (world s)(key := None), calls := calls s @ [DelState_call key]\<rparr>))"

text \<open>Whether a call of the log is a write (a put or a delete).\<close>

fun is_write :: "stub_call \<Rightarrow> bool" where
  "is_write (GetState_call k) = False"
| "is_write (PutState_call k v) = True"
| "is_write (DelState_call k) = True"

section \<open>The role-gated chaincode\<close>

subsection \<open>Constants\<close>

definition varJoinedUsersIndex :: string where
  "varJoinedUsersIndex = ''_joinedUsersIndex''"

definition varJoinedUsers :: string where
  "varJoinedUsers = ''_joinedUsers_''"

definition initialAssetBalance :: "64 word" where
  "initialAssetBalance = 100"

definition roleAdmin :: string where
  "roleAdmin = ''admin''"

definition roleUser :: string where
  "roleUser = ''user''"

definition join_errorHeader :: string where
  "join_errorHeader = ''ERROR: Source: join. ''"

definition transfer_errorHeader :: string where
  "transfer_errorHeader = ''ERROR: Source: transfer. ''"

definition Invoke_errorHeader :: string where
  "Invoke_errorHeader = ''ERROR: Source: Invoke. ''"

definition getalljoinedusers_errorHeader :: string where
  "getalljoinedusers_errorHeader = ''ERROR: Source: Query - getalljoinedusers. ''"

text \<open>The apostrophe that the messages put around ids and quantities.\<close>

abbreviation apostrophe :: string where
  "apostrophe \<equiv> [CHR 0x27]"

subsection \<open>getUsernameFromEcert and getUserDetails\<close>

definition getUsernameFromEcert :: "stub \<Rightarrow> (string \<times> string option) outcome \<times> stub" where
  "getUsernameFromEcert stub =
     (case username_attr stub of
        Inl err \<Rightarrow>
          (Panic (String_iface
             (''ERROR: Failed to get attribute 'username' from eCert of chaincode invoker. Source: getUsernameFromEcert. Details: ''
              @ err)), stub)
      | Inr userName \<Rightarrow> (Return (userName, None), stub))"

text \<open>
  \<^verbatim>\<open>getUserDetails\<close> returns an error when the store fails, and panics when the bytes it
  read do not unmarshal, which is the case for a key that holds nothing.
\<close>

definition getUserDetails :: "string \<Rightarrow> stub \<Rightarrow> (user \<times> string option) outcome \<times> stub" where
  "getUserDetails userId stub =
     (case GetState (varJoinedUsers @ userId) stub of
        ((userDetailsAsBytes, Some err), stub1) \<Rightarrow>
          (Return (\<lparr>Id_user = [], Role = [], AssetBalance = 0\<rparr>,
                   Some (''ERROR: Failure while getting User Details for User ID '' @ apostrophe
                         @ userId @ apostrophe @ ''. Source: getUserDetails. Details: '' @ err)),
           stub1)
      | ((userDetailsAsBytes, None), stub1) \<Rightarrow>
          (case json_Unmarshal_user userDetailsAsBytes of
             Inl errUnmarshalUserDetails \<Rightarrow>
               (Panic (String_iface
                  (''ERROR: Failed to unmarshal User Information. Source: getUserDetails. Details: ''
                   @ errUnmarshalUserDetails)), stub1)
           | Inr userDetails \<Rightarrow> (Return (userDetails, None), stub1)))"

subsection \<open>join\<close>

text \<open>The loop of \<^verbatim>\<open>join\<close> over the index: is the joinee's id already there?\<close>

primrec previously_joined :: "string list \<Rightarrow> string \<Rightarrow> bool" where
  "previously_joined [] joineeId = False"
| "previously_joined (val # rest) joineeId =
     (if val = joineeId then True else previously_joined rest joineeId)"

definition join_msg_args :: string where
  "join_msg_args = join_errorHeader
     @ ''Incorrect number of arguments - expecting 2 (Joinee User ID, Joinee User Role).''"

definition join_msg_permission :: string where
  "join_msg_permission = join_errorHeader
     @ ''Permission denied - executing User must be 'admin' or assigned an Administrator User Role.''"

definition join_msg_underscore :: string where
  "join_msg_underscore = join_errorHeader
     @ ''Source: First input parameter. User ID of new joinee must not begin with an underscore.''"

definition join_msg_role :: string where
  "join_msg_role = join_errorHeader
     @ ''Source: Second input parameter. Invalid Role for new joinee.''"

definition join_msg_get_index :: string where
  "join_msg_get_index = join_errorHeader @ ''Failed to get Index of Joined Users.''"

definition join_msg_unmarshal_index :: string where
  "join_msg_unmarshal_index = join_errorHeader @ ''Failed to unmarshal Index of Joined Users.''"

definition join_msg_exists :: string where
  "join_msg_exists = join_errorHeader @ ''A User has previously joined with the same User ID.''"

definition join_msg_store :: "string \<Rightarrow> string \<Rightarrow> string" where
  "join_msg_store joineeId err = join_errorHeader
     @ ''Failure while storing User Details for Joinee ID '' @ apostrophe @ joineeId @ apostrophe
     @ ''. Details: '' @ err"

definition join_msg_index_write :: "string \<Rightarrow> string \<Rightarrow> string" where
  "join_msg_index_write joineeId err = join_errorHeader
     @ ''Failure while adding Joinee ID '' @ apostrophe @ joineeId @ apostrophe
     @ ''. to the Index of Joined Users. Details: '' @ err
     @ ''\<newline>Rolling back addition of new User Details... ''"

definition join_msg_rolled_back :: "string \<Rightarrow> string \<Rightarrow> string" where
  "join_msg_rolled_back joineeId err = join_msg_index_write joineeId err
     @ ''rollback succeeded for new Joinee ID '' @ apostrophe @ joineeId @ apostrophe @ ''.''"

definition join_msg_rollback_failed :: "string \<Rightarrow> string \<Rightarrow> string \<Rightarrow> string \<Rightarrow> string" where
  "join_msg_rollback_failed joineeId err joineeKey errDelete = join_msg_index_write joineeId err
     @ ''ERROR: ROLLBACK FAILED FOR NEW JOINEE ID '' @ apostrophe @ joineeId @ apostrophe
     @ ''. A SYSTEM ADMINISTRATOR SHOULD IDEALLY PERFORM MANUALLY ROLLBACK BY DELETING STATE FOR THE FOLLOWING KEY FROM WORLD STATE: ''
     @ joineeKey @ ''\<newline>Error Details: '' @ errDelete"

definition join :: "string \<Rightarrow> string \<Rightarrow> string list \<Rightarrow> stub \<Rightarrow> (bytes \<times> string option) outcome \<times> stub" where
  "join userId userRole args stub =
     (if length args \<noteq> 2 then (Panic (String_iface join_msg_args), stub)
      else if userId \<noteq> ''admin'' \<and> userRole \<noteq> roleAdmin
        then (Panic (String_iface join_msg_permission), stub)
      else
        (let joineeId = args ! 0 in
         if strings_Index joineeId ''_'' = 0 then (Panic (String_iface join_msg_underscore), stub)
         else
           (let joineeRole = args ! 1 in
            if joineeRole \<noteq> roleAdmin \<and> joineeRole \<noteq> roleUser
              then (Panic (String_iface join_msg_role), stub)
            else
              (case GetState varJoinedUsersIndex stub of
                 ((joinedUsersIndexAsBytes, Some errGetJoinedUsersIndex), stub1) \<Rightarrow>
                   (Panic (String_iface join_msg_get_index), stub1)
               | ((joinedUsersIndexAsBytes, None), stub1) \<Rightarrow>
                   (case json_Unmarshal_strings joinedUsersIndexAsBytes of
                      None \<Rightarrow> (Panic (String_iface join_msg_unmarshal_index), stub1)
                    | Some joinedUsersIndex \<Rightarrow>
                        if previously_joined joinedUsersIndex joineeId
                          then (Panic (String_iface join_msg_exists), stub1)
                        else
                          (let joineeKey = varJoinedUsers @ joineeId;
                               joineeDetails = \<lparr>Id_user = joineeId, Role = joineeRole,
                                                AssetBalance = initialAssetBalance\<rparr>;
                               joineeDetailsAsBytes = json_Marshal_user joineeDetails
                           in case PutState joineeKey joineeDetailsAsBytes stub1 of
                                (Some errSaveJoineeDetails, stub2) \<Rightarrow>
                                  (Panic (String_iface (join_msg_store joineeId errSaveJoineeDetails)),
                                   stub2)
                              | (None, stub2) \<Rightarrow>
                                  (let newJoinedUsersIndex = joinedUsersIndex @ [joineeId];
                                       newJoinedUsersIndexAsBytes =
                                         json_Marshal_strings newJoinedUsersIndex
                                   in case PutState varJoinedUsersIndex newJoinedUsersIndexAsBytes
                                             stub2 of
                                        (None, stub3) \<Rightarrow> (Return (Nil_bytes, None), stub3)
                                      | (Some errSaveJoinedUsersIndex, stub3) \<Rightarrow>
                                          (case DelState joineeKey stub3 of
                                             (None, stub4) \<Rightarrow>
                                               (Panic (String_iface
                                                  (join_msg_rolled_back joineeId
                                                     errSaveJoinedUsersIndex)), stub4)
                                           | (Some errDeleteJoineeDetails, stub4) \<Rightarrow>
                                               (Panic (String_iface
                                                  (join_msg_rollback_failed joineeId
                                                     errSaveJoinedUsersIndex joineeKey
                                                     errDeleteJoineeDetails)), stub4)))))))))"

subsection \<open>transfer\<close>

text \<open>
  The loop of \<^verbatim>\<open>transfer\<close> over the index sets two flags: whether the sender's id and
  whether the receiver's id was seen.
\<close>

primrec membership_scan :: "string list \<Rightarrow> string \<Rightarrow> string \<Rightarrow> bool \<times> bool \<Rightarrow> bool \<times> bool" where
  "membership_scan [] senderId receiverId flags = flags"
| "membership_scan (val # rest) senderId receiverId flags =
     membership_scan rest senderId receiverId
       ((if val = senderId then True else fst flags),
        (if val = receiverId then True else snd flags))"

definition transfer_msg_args :: string where
  "transfer_msg_args = transfer_errorHeader
     @ ''Incorrect number of arguments - expecting 3 (Sender ID, Receiver ID, Asset Quantity).''"

definition transfer_msg_underscore :: string where
  "transfer_msg_underscore = transfer_errorHeader
     @ ''User IDs of Sender and Receiver must not begin with an underscore.''"

definition transfer_msg_same :: string where
  "transfer_msg_same = transfer_errorHeader @ ''Sender and Receiver must not be the same User.''"

definition transfer_msg_permission :: string where
  "transfer_msg_permission = transfer_errorHeader
     @ ''Permission denied - the executing User must match the Sender ID for a successful transfer.''"

definition transfer_msg_quantity :: string where
  "transfer_msg_quantity = transfer_errorHeader
     @ ''Expecting integer value for quantity of Asset to be trasferred.''"

definition transfer_msg_get_index :: string where
  "transfer_msg_get_index = transfer_errorHeader @ ''Failed to get Index of Joined Users.''"

definition transfer_msg_unmarshal_index :: string where
  "transfer_msg_unmarshal_index = transfer_errorHeader
     @ ''Failed to unmarshal Index of Joined Users.''"

definition transfer_msg_sender_unknown :: string where
  "transfer_msg_sender_unknown = transfer_errorHeader
     @ ''Sender is not a member and will have to join the network before attempting this Asset Transfer.''"

definition transfer_msg_receiver_unknown :: string where
  "transfer_msg_receiver_unknown = transfer_errorHeader
     @ ''Receiver is not a member and will have to join the network before attempting this Asset Transfer.''"

definition transfer_msg_get_sender :: "string \<Rightarrow> string \<Rightarrow> string" where
  "transfer_msg_get_sender senderId err = transfer_errorHeader
     @ ''Failed to get User Information for Sender '' @ apostrophe @ senderId @ apostrophe
     @ ''. Details: '' @ err"

definition transfer_msg_insufficient :: "64 word \<Rightarrow> string" where
  "transfer_msg_insufficient senderAssetBalance = transfer_errorHeader
     @ ''Sender does not possess sufficient assets to complete the transaction. senderAssetBalance: ''
     @ string_of_rune senderAssetBalance"

definition transfer_msg_get_receiver :: "string \<Rightarrow> string \<Rightarrow> string" where
  "transfer_msg_get_receiver receiverId err = transfer_errorHeader
     @ ''Failed to get User Information for Receiver '' @ apostrophe @ receiverId @ apostrophe
     @ ''. Details: '' @ err"

definition transfer_msg_save_sender :: "string \<Rightarrow> string \<Rightarrow> string" where
  "transfer_msg_save_sender senderId err = transfer_errorHeader
     @ ''Transaction failed - unable to update Asset Balance for Sender ID '' @ apostrophe
     @ senderId @ apostrophe @ ''. Details: '' @ err"

definition transfer_msg_save_receiver :: "string \<Rightarrow> string \<Rightarrow> string" where
  "transfer_msg_save_receiver receiverId err = transfer_errorHeader
     @ ''Transaction failed - unable to update Asset Balance for Receiver ID '' @ apostrophe
     @ receiverId @ apostrophe @ ''. Details: '' @ err
     @ ''\<newline>Attempting to roll back deduction from Sender account... ''"

definition transfer_msg_rolled_back :: "string \<Rightarrow> string \<Rightarrow> 64 word \<Rightarrow> string \<Rightarrow> string" where
  "transfer_msg_rolled_back receiverId err assetQuantity senderId =
     transfer_msg_save_receiver receiverId err
     @ ''successfully rolled back asset deduction of '' @ apostrophe
     @ string_of_rune assetQuantity @ apostrophe @ '' from Sender ID '' @ apostrophe @ senderId
     @ apostrophe @ ''.''"

definition transfer_msg_inconsistent ::
  "string \<Rightarrow> string \<Rightarrow> 64 word \<Rightarrow> string \<Rightarrow> 64 word \<Rightarrow> string \<Rightarrow> string" where
  "transfer_msg_inconsistent receiverId err assetQuantity senderId senderAssetBalance errRollback =
     transfer_msg_save_receiver receiverId err
     @ ''CRITICAL ERROR: UNABLE TO ROLL BACK ASSET DEDUCTION OF '' @ apostrophe
     @ string_of_rune assetQuantity @ apostrophe @ '' FROM SENDER ID '' @ apostrophe @ senderId
     @ apostrophe
     @ ''. WORLD STATE IS INCONSISTENT - TRANSACTION MUST BE MANUALLY REVERSED BY AN ADMINISTRATOR! Correct value: ''
     @ Itoa senderAssetBalance @ ''\<newline>Error details: '' @ errRollback"

definition transfer :: "string \<Rightarrow> string \<Rightarrow> string list \<Rightarrow> stub \<Rightarrow> (bytes \<times> string option) outcome \<times> stub" where
  "transfer userId userRole args stub =
     (if length args \<noteq> 3 then (Return (Nil_bytes, Some transfer_msg_args), stub)
      else
        (let senderId = args ! 0; receiverId = args ! 1 in
         if strings_Index senderId ''_'' = 0 \<or> strings_Index receiverId ''_'' = 0
           then (Panic (String_iface transfer_msg_underscore), stub)
         else if senderId = receiverId then (Panic (String_iface transfer_msg_same), stub)
         else if userId \<noteq> senderId then (Panic (String_iface transfer_msg_permission), stub)
         else
           (case Atoi (args ! 2) of
              None \<Rightarrow> (Panic (String_iface transfer_msg_quantity), stub)
            | Some assetQuantity \<Rightarrow>
                (case GetState varJoinedUsersIndex stub of
                   ((joinedUsersIndexAsBytes, Some errGetJoinedUsersIndex), stub1) \<Rightarrow>
                     (Panic (String_iface transfer_msg_get_index), stub1)
                 | ((joinedUsersIndexAsBytes, None), stub1) \<Rightarrow>
                     (case json_Unmarshal_strings joinedUsersIndexAsBytes of
                        None \<Rightarrow> (Panic (String_iface transfer_msg_unmarshal_index), stub1)
                      | Some joinedUsersIndex \<Rightarrow>
                          (let valid = membership_scan joinedUsersIndex senderId receiverId
                                         (False, False);
                               validSenderId = fst valid; validReceiverId = snd valid
                           in if validSenderId = False
                                then (Panic (String_iface transfer_msg_sender_unknown), stub1)
                              else if validReceiverId = False
                                then (Panic (String_iface transfer_msg_receiver_unknown), stub1)
                              else
                                (case getUserDetails senderId stub1 of
                                   (Panic v, stub2) \<Rightarrow> (Panic v, stub2)
                                 | (Return (senderDetails, Some errGetSenderDetails), stub2) \<Rightarrow>
                                     (Panic (String_iface
                                        (transfer_msg_get_sender senderId errGetSenderDetails)),
                                      stub2)
                                 | (Return (senderDetails, None), stub2) \<Rightarrow>
                                     (let senderAssetBalance = AssetBalance senderDetails;
                                          newSenderAssetBalance = senderAssetBalance - assetQuantity
                                      in if newSenderAssetBalance <s 0
                                           then (Panic (String_iface
                                                   (transfer_msg_insufficient
                                                      (AssetBalance senderDetails))), stub2)
                                         else
                                           (case getUserDetails receiverId stub2 of
                                              (Panic v, stub3) \<Rightarrow> (Panic v, stub3)
                                            | (Return (receiverDetails, Some errGetReceiverDetails),
                                                 stub3) \<Rightarrow>
                                                (Panic (String_iface
                                                   (transfer_msg_get_receiver receiverId
                                                      errGetReceiverDetails)), stub3)
                                            | (Return (receiverDetails, None), stub3) \<Rightarrow>
                                                (let receiverAssetBalance =
                                                       AssetBalance receiverDetails;
                                                     senderDetails1 = senderDetails
                                                       \<lparr>AssetBalance := newSenderAssetBalance\<rparr>;
                                                     receiverDetails1 = receiverDetails
                                                       \<lparr>AssetBalance :=
                                                          receiverAssetBalance + assetQuantity\<rparr>;
                                                     newSenderDetailsAsBytes =
                                                       json_Marshal_user senderDetails1;
                                                     newReceiverDetailsAsBytes =
                                                       json_Marshal_user receiverDetails1
                                                 in case PutState (varJoinedUsers @ senderId)
                                                           newSenderDetailsAsBytes stub3 of
                                                      (Some errSaveSenderDetails, stub4) \<Rightarrow>
                                                        (Panic (String_iface
                                                           (transfer_msg_save_sender senderId
                                                              errSaveSenderDetails)), stub4)
                                                    | (None, stub4) \<Rightarrow>
                                                        (case PutState (varJoinedUsers @ receiverId)
                                                                newReceiverDetailsAsBytes stub4 of
                                                           (None, stub5) \<Rightarrow>
                                                             (Return (Nil_bytes, None), stub5)
                                                         | (Some errSaveRecieverDetails, stub5) \<Rightarrow>
                                                             (let senderDetails2 = senderDetails1
                                                                    \<lparr>AssetBalance :=
                                                                       senderAssetBalance\<rparr>;
                                                                  senderDetailsAsBytes =
                                                                    json_Marshal_user senderDetails2
                                                              in case PutState senderId
                                                                        senderDetailsAsBytes stub5 of
                                                                   (None, stub6) \<Rightarrow>
                                                                     (Panic (String_iface
                                                                        (transfer_msg_rolled_back
                                                                           receiverId
                                                                           errSaveRecieverDetails
                                                                           assetQuantity senderId)),
                                                                      stub6)
                                                                 | (Some errRollback, stub6) \<Rightarrow>
                                                                     (Panic (String_iface
                                                                        (transfer_msg_inconsistent
                                                                           receiverId
                                                                           errSaveRecieverDetails
                                                                           assetQuantity senderId
                                                                           senderAssetBalance
                                                                           errRollback)),
                                                                      stub6)))))))))))))"

subsection \<open>Init, Invoke and Query\<close>

definition Init :: "string \<Rightarrow> string list \<Rightarrow> stub \<Rightarrow> (bytes \<times> string option) outcome \<times> stub" where
  "Init function_name args stub =
     (if length args \<noteq> 0
        then (Return (Nil_bytes,
                Some ''Incorrect number of arguments for Init invocation - expecting none.''), stub)
      else
        (let emptyAsBytes = json_Marshal_strings [] in
         case PutState varJoinedUsersIndex emptyAsBytes stub of
           (Some err, stub1) \<Rightarrow> (Return (Nil_bytes, Some err), stub1)
         | (None, stub1) \<Rightarrow> (Return (Nil_bytes, None), stub1)))"

text \<open>
  The body of \<^verbatim>\<open>Invoke\<close>, without its deferred function: the invoker's id and details
  are read first, then the call is dispatched.
\<close>

definition Invoke_body :: "string \<Rightarrow> string list \<Rightarrow> stub \<Rightarrow> (bytes \<times> string option) outcome \<times> stub" where
  "Invoke_body function_name args stub =
     (case getUsernameFromEcert stub of
        (Panic v, stub0) \<Rightarrow> (Panic v, stub0)
      | (Return (userId, err0), stub0) \<Rightarrow>
          (case getUserDetails userId stub0 of
             (Panic v, stub1) \<Rightarrow> (Panic v, stub1)
           | (Return (userDetails, Some errGetUserDetails), stub1) \<Rightarrow>
               (Return (Nil_bytes,
                  Some (Invoke_errorHeader @ ''Details: '' @ errGetUserDetails)), stub1)
           | (Return (userDetails, None), stub1) \<Rightarrow>
               if function_name = ''init'' then Init ''init'' args stub1
               else if function_name = ''join'' then join userId (Role userDetails) args stub1
               else if function_name = ''transfer''
                 then transfer userId (Role userDetails) args stub1
               else (Return (Nil_bytes,
                       Some (Invoke_errorHeader @ ''Invoke() called with unknown function name: ''
                             @ function_name)), stub1)))"

text \<open>The type assertion \<^verbatim>\<open>v.(string)\<close> in its one-result form: it panics unless \<open>v\<close> holds a string.\<close>

definition assert_string :: "iface \<Rightarrow> string outcome" where
  "assert_string v =
     (case v of
        String_iface s \<Rightarrow> Return s
      | Nil_iface \<Rightarrow> Panic (Runtime_iface TypeAssertionError)
      | Runtime_iface e \<Rightarrow> Panic (Runtime_iface TypeAssertionError))"

text \<open>
  The deferred function of \<^verbatim>\<open>Invoke\<close>, applied to what \<^verbatim>\<open>recover()\<close> returns. It sets
  \<^verbatim>\<open>retBytes\<close> to nil, asserts that the recovered value is a string and sets \<^verbatim>\<open>retErr\<close>
  from it. It has no test for a nil recovered value.
\<close>

definition Invoke_deferred :: "iface \<Rightarrow> (bytes \<times> string option) outcome" where
  "Invoke_deferred recovered =
     (case assert_string recovered of
        Panic v \<Rightarrow> Panic v
      | Return fatalErrorMsg \<Rightarrow>
          Return (Nil_bytes, Some (Invoke_errorHeader @ ''Details: '' @ fatalErrorMsg)))"

text \<open>
  \<^verbatim>\<open>Invoke\<close>: the deferred function runs on every way out of the body. When the body
  returned, \<^verbatim>\<open>recover()\<close> gives nil; when it panicked, the value of the panic.
\<close>

definition Invoke :: "string \<Rightarrow> string list \<Rightarrow> stub \<Rightarrow> (bytes \<times> string option) outcome \<times> stub" where
  "Invoke function_name args stub =
     (case Invoke_body function_name args stub of
        (Return r, stub1) \<Rightarrow> (Invoke_deferred Nil_iface, stub1)
      | (Panic v, stub1) \<Rightarrow> (Invoke_deferred v, stub1))"

definition Query :: "string \<Rightarrow> string list \<Rightarrow> stub \<Rightarrow> (bytes \<times> string option) outcome \<times> stub" where
  "Query function_name args stub =
     (if function_name = ''getassetbalance'' then
        (if length args \<noteq> 1
           then (Return (Nil_bytes,
                   Some ''Incorrect number of arguments - expecting 1 (User ID).''), stub)
         else
           (case getUserDetails (args ! 0) stub of
              (Panic v, stub1) \<Rightarrow> (Panic v, stub1)
            | (Return (userDetails, Some errGetUserDetails), stub1) \<Rightarrow>
                (Return (Nil_bytes,
                   Some (''Failed to get Asset Balance for User ID '' @ apostrophe @ args ! 0
                         @ apostrophe @ ''. Details: '' @ errGetUserDetails)), stub1)
            | (Return (userDetails, None), stub1) \<Rightarrow>
                (Return (Json_number (Itoa (AssetBalance userDetails)), None), stub1)))
      else if function_name = ''getalljoinedusers'' then
        (case GetState varJoinedUsersIndex stub of
           ((joinedUsersIndexAsBytes, Some errGetJoinedUsersIndex), stub1) \<Rightarrow>
             (Panic (String_iface
                (getalljoinedusers_errorHeader @ ''Failed to get Index of Joined Users.'')), stub1)
         | ((joinedUsersIndexAsBytes, None), stub1) \<Rightarrow>
             (case json_Unmarshal_strings joinedUsersIndexAsBytes of
                None \<Rightarrow>
                  (Panic (String_iface
                     (getalljoinedusers_errorHeader
                      @ ''Failed to unmarshal Index of Joined Users.'')), stub1)
              | Some joinedUsersIndex \<Rightarrow> (Return (joinedUsersIndexAsBytes, None), stub1)))
      else (Return (Nil_bytes, Some (''Query() received unknown function: '' @ function_name)),
            stub))"

section \<open>The chaincode without roles\<close>

text \<open>
  The second source file of the repository (\<^verbatim>\<open>src/unnamed/part_000\<close>) is the same
  chaincode without roles and without panics: every failure is a returned error. It keeps
  the index under the key \<^verbatim>\<open>_joinedUsers\<close> and each balance as decimal text under the
  bare user id. Its definitions carry the suffix \<open>_plain\<close> where a name is shared with
  the role-gated chaincode. Its errors are modelled as one constructor per
  \<^verbatim>\<open>errors.New\<close> of the source, in the order of the source; a constructor keeps the parts
  of the message that vary (an id, the text of a store error, the bytes read).
\<close>

datatype plain_error =
    Join_argument_count
  | Join_underscore
  | Get_index_failed
  | Previously_joined
  | Add_to_index_failed
  | Initialize_balance_failed
  | Expecting_no_arguments
  | Quantity_not_integer
  | Transfer_underscore
  | Same_user
  | Sender_not_member
  | Receiver_not_member
  | Get_sender_balance_failed string string
  | Get_receiver_balance_failed string string
  | Sender_balance_not_integer string
  | Insufficient_assets bytes
  | Receiver_balance_not_integer string
  | Update_sender_failed string string
  | Update_receiver_failed string string
  | Store_error string
  | Query_argument_count
  | Query_get_failed string string
  | Unknown_query string
  | Unknown_invoke string

definition joinedUsersStr :: string where
  "joinedUsersStr = ''_joinedUsers''"

definition initialAssetBalance_plain :: string where
  "initialAssetBalance_plain = ''100''"

text \<open>
  \<^verbatim>\<open>strconv.Atoi(string(b))\<close> for bytes read from the world state: the text of a JSON
  object, of a JSON array and of \<^verbatim>\<open>null\<close> is not a decimal number.
\<close>

fun Atoi_bytes :: "bytes \<Rightarrow> 64 word option" where
  "Atoi_bytes Nil_bytes = Atoi []"
| "Atoi_bytes Json_null = None"
| "Atoi_bytes (Json_user u) = None"
| "Atoi_bytes (Json_strings xs) = None"
| "Atoi_bytes (Json_number s) = Atoi s"
| "Atoi_bytes (Other_bytes raw diag) = Atoi raw"

text \<open>
  \<^verbatim>\<open>json.Unmarshal(b, &joinedUsersIndex)\<close> with the error dropped, as this variant calls
  it: on an error the slice stays nil. (Bytes that are a JSON array with elements that are
  not strings would leave a partly filled slice; such bytes are not among the values of
  \<open>bytes\<close>.)
\<close>

definition Unmarshal_index_unchecked :: "bytes \<Rightarrow> string list" where
  "Unmarshal_index_unchecked b =
     (case json_Unmarshal_strings b of None \<Rightarrow> [] | Some joinedUsersIndex \<Rightarrow> joinedUsersIndex)"

text \<open>
  \<^verbatim>\<open>join\<close>: the index is written first, the balance second. The statements after the
  \<^verbatim>\<open>return\<close> in the last error branch of the source (a write meant as a rollback) are
  unreachable and have no counterpart here.
\<close>

definition join_plain :: "string list \<Rightarrow> stub \<Rightarrow> (bytes \<times> plain_error option) \<times> stub" where
  "join_plain args stub =
     (if length args \<noteq> 1 then ((Nil_bytes, Some Join_argument_count), stub)
      else
        (let joineeId = args ! 0 in
         if strings_Index joineeId ''_'' = 0 then ((Nil_bytes, Some Join_underscore), stub)
         else
           (case GetState joinedUsersStr stub of
              ((joinedUsersAsBytes, Some err), stub1) \<Rightarrow>
                ((Nil_bytes, Some Get_index_failed), stub1)
            | ((joinedUsersAsBytes, None), stub1) \<Rightarrow>
                (let joinedUsersIndex = Unmarshal_index_unchecked joinedUsersAsBytes in
                 if previously_joined joinedUsersIndex joineeId
                   then ((Nil_bytes, Some Previously_joined), stub1)
                 else
                   (let newJoinedUsersIndex = joinedUsersIndex @ [joineeId];
                        newJoinedUsersIndexAsBytes = json_Marshal_strings newJoinedUsersIndex
                    in case PutState joinedUsersStr newJoinedUsersIndexAsBytes stub1 of
                         (Some err, stub2) \<Rightarrow> ((Nil_bytes, Some Add_to_index_failed), stub2)
                       | (None, stub2) \<Rightarrow>
                           (case PutState joineeId (Json_number initialAssetBalance_plain)
                                   stub2 of
                              (Some err, stub3) \<Rightarrow>
                                ((Nil_bytes, Some Initialize_balance_failed), stub3)
                            | (None, stub3) \<Rightarrow> ((Nil_bytes, None), stub3)))))))"

text \<open>
  \<^verbatim>\<open>transfer\<close>: a wrong number of arguments gives the error text of \<^verbatim>\<open>Init\<close>
  (\<open>Expecting_no_arguments\<close>), as in the source; the quantity is parsed before the ids are
  checked, and the check on the underscore compares the index with 1, as the source does. The statements after the
  \<^verbatim>\<open>return\<close> in the last error branch (the rollback of the sender's balance) are
  unreachable and have no counterpart here.
\<close>

definition transfer_plain :: "string list \<Rightarrow> stub \<Rightarrow> (bytes \<times> plain_error option) \<times> stub" where
  "transfer_plain args stub =
     (if length args \<noteq> 3 then ((Nil_bytes, Some Expecting_no_arguments), stub)
      else
        (let senderId = args ! 0; receiverId = args ! 1 in
         case Atoi (args ! 2) of
           None \<Rightarrow> ((Nil_bytes, Some Quantity_not_integer), stub)
         | Some assetQuantity \<Rightarrow>
             if strings_Index senderId ''_'' = 1 \<or> strings_Index receiverId ''_'' = 1
               then ((Nil_bytes, Some Transfer_underscore), stub)
             else if senderId = receiverId then ((Nil_bytes, Some Same_user), stub)
             else
               (case GetState joinedUsersStr stub of
                  ((joinedUsersAsBytes, Some err), stub1) \<Rightarrow>
                    ((Nil_bytes, Some Get_index_failed), stub1)
                | ((joinedUsersAsBytes, None), stub1) \<Rightarrow>
                    (let joinedUsersIndex = Unmarshal_index_unchecked joinedUsersAsBytes;
                         valid = membership_scan joinedUsersIndex senderId receiverId
                                   (False, False);
                         validSenderId = fst valid; validReceiverId = snd valid
                     in if validSenderId = False
                          then ((Nil_bytes, Some Sender_not_member), stub1)
                        else if validReceiverId = False
                          then ((Nil_bytes, Some Receiver_not_member), stub1)
                        else
                          (case GetState senderId stub1 of
                             ((senderAssetBalanceAsBytes, Some err), stub2) \<Rightarrow>
                               ((Nil_bytes, Some (Get_sender_balance_failed senderId err)), stub2)
                           | ((senderAssetBalanceAsBytes, None), stub2) \<Rightarrow>
                               (case GetState receiverId stub2 of
                                  ((receiverAssetBalanceAsBytes, Some err), stub3) \<Rightarrow>
                                    ((Nil_bytes,
                                      Some (Get_receiver_balance_failed receiverId err)), stub3)
                                | ((receiverAssetBalanceAsBytes, None), stub3) \<Rightarrow>
                                    (case Atoi_bytes senderAssetBalanceAsBytes of
                                       None \<Rightarrow>
                                         ((Nil_bytes,
                                           Some (Sender_balance_not_integer senderId)), stub3)
                                     | Some senderAssetBalance \<Rightarrow>
                                         (let newSenderAssetBalance =
                                                senderAssetBalance - assetQuantity
                                          in if newSenderAssetBalance <s 0
                                               then ((Nil_bytes,
                                                      Some (Insufficient_assets
                                                              senderAssetBalanceAsBytes)), stub3)
                                             else
                                               (case Atoi_bytes receiverAssetBalanceAsBytes of
                                                  None \<Rightarrow>
                                                    ((Nil_bytes,
                                                      Some (Receiver_balance_not_integer
                                                              receiverId)), stub3)
                                                | Some receiverAssetBalance \<Rightarrow>
                                                    (let newReceiverAssetBalance =
                                                           receiverAssetBalance + assetQuantity
                                                     in case PutState senderId
                                                               (Json_number
                                                                  (Itoa newSenderAssetBalance))
                                                               stub3 of
                                                          (Some err, stub4) \<Rightarrow>
                                                            ((Nil_bytes,
                                                              Some (Update_sender_failed
                                                                      senderId err)), stub4)
                                                        | (None, stub4) \<Rightarrow>
                                                            (case PutState receiverId
                                                                    (Json_number
                                                                       (Itoa
                                                                          newReceiverAssetBalance))
                                                                    stub4 of
                                                               (Some err, stub5) \<Rightarrow>
                                                                 ((Nil_bytes,
                                                                   Some (Update_receiver_failed
                                                                           receiverId err)),
                                                                  stub5)
                                                             | (None, stub5) \<Rightarrow>
                                                                 ((Nil_bytes, None),
                                                                  stub5))))))))))))"

definition Init_plain :: "string \<Rightarrow> string list \<Rightarrow> stub \<Rightarrow> (bytes \<times> plain_error option) \<times> stub" where
  "Init_plain function_name args stub =
     (if length args \<noteq> 0 then ((Nil_bytes, Some Expecting_no_arguments), stub)
      else
        (let emptyAsBytes = json_Marshal_strings [] in
         case PutState joinedUsersStr emptyAsBytes stub of
           (Some err, stub1) \<Rightarrow> ((Nil_bytes, Some (Store_error err)), stub1)
         | (None, stub1) \<Rightarrow> ((Nil_bytes, None), stub1)))"

definition Invoke_plain :: "string \<Rightarrow> string list \<Rightarrow> stub \<Rightarrow> (bytes \<times> plain_error option) \<times> stub" where
  "Invoke_plain function_name args stub =
     (if function_name = ''init'' then Init_plain ''init'' args stub
      else if function_name = ''join'' then join_plain args stub
      else if function_name = ''transfer'' then transfer_plain args stub
      else ((Nil_bytes, Some (Unknown_invoke function_name)), stub))"

text \<open>
  \<^verbatim>\<open>Query\<close>: the balance query returns whatever bytes the key holds. The branch for
  \<^verbatim>\<open>summary\<close> is empty in the source and falls through to the unknown-function error.
\<close>

definition Query_plain :: "string \<Rightarrow> string list \<Rightarrow> stub \<Rightarrow> (bytes \<times> plain_error option) \<times> stub" where
  "Query_plain function_name args stub =
     (if function_name = ''getassetbalance'' then
        (if length args \<noteq> 1 then ((Nil_bytes, Some Query_argument_count), stub)
         else
           (case GetState (args ! 0) stub of
              ((valAsBytes, Some err), stub1) \<Rightarrow>
                ((Nil_bytes, Some (Query_get_failed (args ! 0) err)), stub1)
            | ((valAsBytes, None), stub1) \<Rightarrow> ((valAsBytes, None), stub1)))
      else ((Nil_bytes, Some (Unknown_query function_name)), stub))"

section \<open>Reading the world state, and concrete ledgers\<close>

text \<open>What a read of a key gives when the store does not fail: nil for a key never written.\<close>

definition stored :: "(string \<rightharpoonup> bytes) \<Rightarrow> string \<Rightarrow> bytes" where
  "stored w key = (case w key of None \<Rightarrow> Nil_bytes | Some v \<Rightarrow> v)"

text \<open>The participant record of a user id in a world state, when its key holds one.\<close>

definition user_record :: "(string \<rightharpoonup> bytes) \<Rightarrow> string \<Rightarrow> user option" where
  "user_record w userId =
     (case json_Unmarshal_user (stored w (varJoinedUsers @ userId)) of
        Inl err \<Rightarrow> None
      | Inr u \<Rightarrow> Some u)"

definition balance_of :: "(string \<rightharpoonup> bytes) \<Rightarrow> string \<Rightarrow> 64 word option" where
  "balance_of w userId = map_option AssetBalance (user_record w userId)"

text \<open>The index of joined users in a world state, when its key holds one.\<close>

definition joined_index :: "(string \<rightharpoonup> bytes) \<Rightarrow> string list option" where
  "joined_index w = json_Unmarshal_strings (stored w varJoinedUsersIndex)"

text \<open>
  An invocation starts with a stub over the current world state: an empty log of calls,
  the faults the store will show during the invocation, and the invoker's name.
\<close>

definition no_faults :: "nat \<Rightarrow> string option" where
  "no_faults n = None"

definition invocation :: "(string \<rightharpoonup> bytes) \<Rightarrow> string \<Rightarrow> (nat \<Rightarrow> string option) \<Rightarrow> stub" where
  "invocation w invoker f = \<lparr>world = w, faults = f, calls = [], username_attr = Inr invoker\<rparr>"

text \<open>
  Three ledgers used as concrete inputs: after \<^verbatim>\<open>Init\<close> on an empty world state; after
  the bootstrap identity has then joined alice; and after it has also joined bob. They
  are built by running the chaincode's own functions.
\<close>

definition world_init :: "string \<rightharpoonup> bytes" where
  "world_init = world (snd (Init ''init'' [] (invocation Map.empty ''admin'' no_faults)))"

definition world_alice :: "string \<rightharpoonup> bytes" where
  "world_alice =
     world (snd (join ''admin'' [] [''alice'', ''user''] (invocation world_init ''admin'' no_faults)))"

definition world_alice_bob :: "string \<rightharpoonup> bytes" where
  "world_alice_bob =
     world (snd (join ''admin'' [] [''bob'', ''user''] (invocation world_alice ''admin'' no_faults)))"

text \<open>The same three ledgers for the chaincode without roles.\<close>

definition world_init_plain :: "string \<rightharpoonup> bytes" where
  "world_init_plain =
     world (snd (Init_plain ''init'' [] (invocation Map.empty ''admin'' no_faults)))"

definition world_alice_plain :: "string \<rightharpoonup> bytes" where
  "world_alice_plain =
     world (snd (join_plain [''alice''] (invocation world_init_plain ''admin'' no_faults)))"

definition world_alice_bob_plain :: "string \<rightharpoonup> bytes" where
  "world_alice_bob_plain =
     world (snd (join_plain [''bob''] (invocation world_alice_plain ''admin'' no_faults)))"





section \<open>Properties\<close>

subsection \<open>The library functions and the accessors\<close>

lemma strings_Index_underscore:
  "(strings_Index s ''_'' = 0) = (\<exists>cs. s = CHR ''_'' # cs)"
  by (cases s) (auto simp: Let_def)

text \<open>\<^verbatim>\<open>strconv.Atoi\<close> reads back what \<^verbatim>\<open>strconv.Itoa\<close> wrote.\<close>

lemma digit_of_char_of:
  "0 \<le> d \<Longrightarrow> d < 10 \<Longrightarrow> digit_of (char_of (48 + d)) = Some (d::int)"
  by (simp add: digit_of_def Let_def of_char_of)

lemma digits_value_append:
  "digits_value (xs @ [c]) acc =
     (case digits_value xs acc of
        None \<Rightarrow> None
      | Some v \<Rightarrow> (case digit_of c of None \<Rightarrow> None | Some d \<Rightarrow> Some (v * 10 + d)))"
  by (induction xs arbitrary: acc) (auto split: option.splits)

lemma digits_value_decimal:
  "0 \<le> n \<Longrightarrow> digits_value (decimal n) 0 = Some n"
proof (induction n rule: decimal.induct)
  case (1 n)
  show ?case
  proof (cases "n < 10")
    case True
    with "1.prems" show ?thesis
      by (subst decimal.simps) (simp add: digit_of_char_of)
  next
    case False
    then have ih: "digits_value (decimal (n div 10)) 0 = Some (n div 10)"
      using "1.IH" "1.prems" by simp
    have d: "digit_of (char_of (48 + n mod 10)) = Some (n mod 10)"
      by (rule digit_of_char_of) simp_all
    show ?thesis
      using False by (subst decimal.simps) (simp add: digits_value_append ih d)
  qed
qed

lemma decimal_first:
  "0 \<le> n \<Longrightarrow> \<exists>c cs. decimal n = c # cs \<and> digit_of c \<noteq> None"
proof (induction n rule: decimal.induct)
  case (1 n)
  show ?case
  proof (cases "n < 10")
    case True
    with "1.prems" show ?thesis
      by (subst decimal.simps) (simp add: digit_of_char_of)
  next
    case False
    then obtain c cs where "decimal (n div 10) = c # cs" "digit_of c \<noteq> None"
      using "1.IH" "1.prems" by fastforce
    then show ?thesis
      using False by (subst decimal.simps) simp
  qed
qed

lemma digit_of_signs: "digit_of CHR ''-'' = None" "digit_of CHR ''+'' = None"
  by (simp_all add: digit_of_def)

lemma Atoi_decimal:
  assumes "0 \<le> n"
  shows "Atoi (decimal n) = (if n < 9223372036854775808 then Some (word_of_int n) else None)"
proof -
  from decimal_first [OF assms] obtain c cs where
    d: "decimal n = c # cs" and c: "digit_of c \<noteq> None"
    by blast
  have ne: "c \<noteq> CHR ''-''" "c \<noteq> CHR ''+''"
    using c digit_of_signs by auto
  have v: "digits_value (c # cs) 0 = Some n"
    using digits_value_decimal [OF assms] d by simp
  show ?thesis
    unfolding Atoi_def d using ne v by (simp del: digits_value.simps)
qed

lemma Atoi_Itoa: "Atoi (Itoa i) = Some i"
proof (cases "sint i < 0")
  case True
  have le: "- sint i \<le> 9223372036854775808"
    using sint_ge [of i] by simp
  have v: "digits_value (decimal (- sint i)) 0 = Some (- sint i)"
    using True by (intro digits_value_decimal) simp
  obtain c cs where d: "decimal (- sint i) = c # cs"
    using decimal_first [of "- sint i"] True by auto
  show ?thesis
    using True le v d by (simp add: Itoa_def Atoi_def del: digits_value.simps)
next
  case False
  have lt: "sint i < 9223372036854775808"
    using sint_lt [of i] by simp
  show ?thesis
    using False lt by (simp add: Itoa_def Atoi_decimal)
qed

text \<open>The accessors as equations, for the proofs below.\<close>

lemma GetState_eq:
  "GetState key s =
     ((if faults s (length (calls s)) = None then stored (world s) key else Nil_bytes,
       faults s (length (calls s))),
      s\<lparr>calls := calls s @ [GetState_call key]\<rparr>)"
  by (simp add: GetState_def stored_def split: option.splits)

lemma getUserDetails_Return_None:
  assumes "getUserDetails userId s = (Return (u, None), s')"
  shows "s' = s\<lparr>calls := calls s @ [GetState_call (varJoinedUsers @ userId)]\<rparr>
         \<and> faults s (length (calls s)) = None
         \<and> user_record (world s) userId = Some u"
  using assms
  by (auto simp: getUserDetails_def GetState_eq user_record_def split: option.splits sum.splits if_splits)

lemma PutState_None:
  "PutState key v s = (None, s') \<Longrightarrow>
     faults s (length (calls s)) = None \<and>
     s' = s\<lparr>world := (world s)(key \<mapsto> v), calls := calls s @ [PutState_call key v]\<rparr>"
  by (auto simp: PutState_def split: option.splits)

lemma PutState_eq:
  "PutState key v s =
     (faults s (length (calls s)),
      if faults s (length (calls s)) = None
        then s\<lparr>world := (world s)(key \<mapsto> v), calls := calls s @ [PutState_call key v]\<rparr>
      else s\<lparr>calls := calls s @ [PutState_call key v]\<rparr>)"
  by (simp add: PutState_def split: option.splits)

lemma DelState_eq:
  "DelState key s =
     (faults s (length (calls s)),
      if faults s (length (calls s)) = None
        then s\<lparr>world := (world s)(key := None), calls := calls s @ [DelState_call key]\<rparr>
      else s\<lparr>calls := calls s @ [DelState_call key]\<rparr>)"
  by (simp add: DelState_def split: option.splits)


lemma index_key_not_user_key [simp]:
  "varJoinedUsersIndex \<noteq> varJoinedUsers @ userId"
  "varJoinedUsers @ userId \<noteq> varJoinedUsersIndex"
  by (simp_all add: varJoinedUsersIndex_def varJoinedUsers_def)

subsection \<open>The concrete ledgers\<close>

lemma world_init_eq:
  "world_init = (\<lambda>k. if k = ''_joinedUsersIndex'' then Some Json_null else None)"
  by (rule ext)
     (simp add: world_init_def Init_def invocation_def PutState_def no_faults_def
        json_Marshal_strings_def varJoinedUsersIndex_def)

lemma world_alice_eq:
  "world_alice =
     (\<lambda>k. if k = ''_joinedUsersIndex'' then Some (Json_strings [''alice''])
          else if k = ''_joinedUsers_alice''
            then Some (Json_user \<lparr>Id_user = ''alice'', Role = ''user'', AssetBalance = 100\<rparr>)
          else None)"
  by (rule ext)
     (simp add: world_alice_def world_init_eq join_def invocation_def GetState_def PutState_def
        no_faults_def json_Marshal_strings_def json_Marshal_user_def varJoinedUsersIndex_def
        varJoinedUsers_def roleAdmin_def roleUser_def initialAssetBalance_def Let_def)

lemma world_alice_bob_eq:
  "world_alice_bob =
     (\<lambda>k. if k = ''_joinedUsersIndex'' then Some (Json_strings [''alice'', ''bob''])
          else if k = ''_joinedUsers_alice''
            then Some (Json_user \<lparr>Id_user = ''alice'', Role = ''user'', AssetBalance = 100\<rparr>)
          else if k = ''_joinedUsers_bob''
            then Some (Json_user \<lparr>Id_user = ''bob'', Role = ''user'', AssetBalance = 100\<rparr>)
          else None)"
  by (rule ext)
     (simp add: world_alice_bob_def world_alice_eq join_def invocation_def GetState_def PutState_def
        no_faults_def json_Marshal_strings_def json_Marshal_user_def varJoinedUsersIndex_def
        varJoinedUsers_def roleAdmin_def roleUser_def initialAssetBalance_def Let_def)

lemma Atoi_30: "Atoi ''30'' = Some 30"
  by (simp add: Atoi_def digit_of_def)

lemmas scenario_defs =
  invocation_def GetState_def PutState_def DelState_def getUserDetails_def no_faults_def
  json_Marshal_user_def json_Marshal_strings_def varJoinedUsersIndex_def varJoinedUsers_def
  roleAdmin_def roleUser_def initialAssetBalance_def Let_def stored_def user_record_def
  balance_of_def joined_index_def

subsection \<open>join\<close>














lemma Itoa_100: "Itoa 100 = ''100''"
  by code_simp

lemma join_success:
  assumes "join userId userRole args stub = (Return (payload, None), stub')"
  shows "\<exists>xs. length args = 2
           \<and> world stub' = (world stub)
                (varJoinedUsers @ args ! 0 \<mapsto>
                   Json_user \<lparr>Id_user = args ! 0, Role = args ! 1, AssetBalance = 100\<rparr>,
                 varJoinedUsersIndex \<mapsto> json_Marshal_strings (xs @ [args ! 0]))"
  using assms
  by (auto simp add: join_def GetState_eq PutState_eq DelState_eq Let_def json_Marshal_user_def
        initialAssetBalance_def split: if_splits option.splits)

text \<open>
  C8. The initial allocation. Whenever \<^verbatim>\<open>join\<close> returns a nil error, the world state it
  leaves holds the joinee's record with the given role and balance 100, and a
  \<^verbatim>\<open>getassetbalance\<close> query for the joinee on that world state, with a store that answers
  the read, returns the text \<^verbatim>\<open>100\<close>. (\<^verbatim>\<open>join\<close> is taken as the function it is; its
  dispatch through \<^verbatim>\<open>Invoke\<close> is the subject of C9 and C10.)
\<close>

theorem join_allocates_initial_balance:
  assumes "join userId userRole args stub = (Return (payload, None), stub')"
    and "world query_stub = world stub'"
    and "faults query_stub (length (calls query_stub)) = None"
  shows "user_record (world stub') (args ! 0)
           = Some \<lparr>Id_user = args ! 0, Role = args ! 1, AssetBalance = 100\<rparr>
       \<and> balance_of (world stub') (args ! 0) = Some 100
       \<and> fst (Query ''getassetbalance'' [args ! 0] query_stub)
           = Return (Json_number ''100'', None)"
proof -
  from join_success [OF assms(1)] obtain xs where
    w': "world stub' = (world stub)
          (varJoinedUsers @ args ! 0 \<mapsto>
             Json_user \<lparr>Id_user = args ! 0, Role = args ! 1, AssetBalance = 100\<rparr>,
           varJoinedUsersIndex \<mapsto> json_Marshal_strings (xs @ [args ! 0]))"
    by blast
  have st: "stored (world stub') (varJoinedUsers @ args ! 0)
              = Json_user \<lparr>Id_user = args ! 0, Role = args ! 1, AssetBalance = 100\<rparr>"
    by (simp add: w' stored_def)
  have rec: "user_record (world stub') (args ! 0)
               = Some \<lparr>Id_user = args ! 0, Role = args ! 1, AssetBalance = 100\<rparr>"
    by (simp add: user_record_def st)
  have q: "fst (Query ''getassetbalance'' [args ! 0] query_stub)
             = Return (Json_number ''100'', None)"
    using assms(2,3) st
    by (simp add: Query_def getUserDetails_def GetState_eq Itoa_100)
  show ?thesis
    using rec q by (simp add: balance_of_def)
qed

text \<open>
  The theorem on the scenario \<^verbatim>\<open>init()\<close>, \<^verbatim>\<open>join("alice","user")\<close> by the bootstrap
  identity, \<^verbatim>\<open>getBalance("alice")\<close>.
\<close>

theorem join_allocates_initial_balance_witness:
  "fst (Init ''init'' [] (invocation Map.empty ''admin'' no_faults)) = Return (Nil_bytes, None)
   \<and> fst (join ''admin'' [] [''alice'', ''user''] (invocation world_init ''admin'' no_faults))
       = Return (Nil_bytes, None)
   \<and> user_record world_alice ''alice''
       = Some \<lparr>Id_user = ''alice'', Role = ''user'', AssetBalance = 100\<rparr>
   \<and> balance_of world_alice ''alice'' = Some 100
   \<and> fst (Query ''getassetbalance'' [''alice''] (invocation world_alice ''alice'' no_faults))
       = Return (Json_number ''100'', None)"
proof -
  let ?j = "join ''admin'' [] [''alice'', ''user''] (invocation world_init ''admin'' no_faults)"
  let ?q = "invocation world_alice ''alice'' no_faults"
  have init: "fst (Init ''init'' [] (invocation Map.empty ''admin'' no_faults))
                = Return (Nil_bytes, None)"
    by (simp add: Init_def scenario_defs)
  have ok: "fst ?j = Return (Nil_bytes, None)"
    by (simp add: join_def world_init_eq scenario_defs)
  then have eq: "?j = (Return (Nil_bytes, None), snd ?j)"
    by (simp add: prod_eq_iff)
  have w: "world ?q = world (snd ?j)"
    by (simp add: invocation_def world_alice_def)
  have f: "faults ?q (length (calls ?q)) = None"
    by (simp add: invocation_def no_faults_def)
  from join_allocates_initial_balance [OF eq w f] init ok
  show ?thesis
    by (simp add: world_alice_def)
qed

subsection \<open>transfer\<close>

text \<open>What a transfer that returns a nil error has read and written.\<close>

lemma membership_scan_iff:
  "membership_scan xs a b flags = (fst flags \<or> a \<in> set xs, snd flags \<or> b \<in> set xs)"
  by (induction xs arbitrary: flags) auto

lemma transfer_success:
  assumes "transfer userId userRole args s = (Return (payload, None), s')"
  shows "\<exists>q sd rd. length args = 3 \<and> args ! 0 \<noteq> args ! 1 \<and> userId = args ! 0
           \<and> Atoi (args ! 2) = Some q
           \<and> user_record (world s) (args ! 0) = Some sd
           \<and> user_record (world s) (args ! 1) = Some rd
           \<and> \<not> (AssetBalance sd - q <s 0)
           \<and> world s' = (world s)
                (varJoinedUsers @ args ! 0 \<mapsto> Json_user (sd\<lparr>AssetBalance := AssetBalance sd - q\<rparr>),
                 varJoinedUsers @ args ! 1 \<mapsto> Json_user (rd\<lparr>AssetBalance := AssetBalance rd + q\<rparr>))"
  using assms
  apply (simp add: transfer_def Let_def split: if_splits option.splits prod.splits outcome.splits)
  apply (auto dest!: getUserDetails_Return_None PutState_None simp: GetState_eq json_Marshal_user_def)
  done



text \<open>
  Read as unbounded integers, the two sums are equal as well whenever neither the debit
  nor the credit leaves the range of a 64-bit integer.
\<close>

lemma transfer_conserves_integers:
  assumes ok: "transfer userId userRole args stub = (Return (payload, None), stub')"
    and sb: "balance_of (world stub) (args ! 0) = Some sb"
    and rb: "balance_of (world stub) (args ! 1) = Some rb"
    and sb': "balance_of (world stub') (args ! 0) = Some sb'"
    and rb': "balance_of (world stub') (args ! 1) = Some rb'"
    and q: "Atoi (args ! 2) = Some q"
    and no_overflow: "- (2 ^ 63) \<le> sint rb + sint q" "sint rb + sint q < 2 ^ 63"
                     "- (2 ^ 63) \<le> sint sb - sint q" "sint sb - sint q < 2 ^ 63"
  shows "sint sb + sint rb = sint sb' + sint rb'"
proof -
  from transfer_success [OF ok] obtain q' sd rd where
    q': "Atoi (args ! 2) = Some q'" and
    ne: "args ! 0 \<noteq> args ! 1" and
    sd: "user_record (world stub) (args ! 0) = Some sd" and
    rd: "user_record (world stub) (args ! 1) = Some rd" and
    w': "world stub' = (world stub)
          (varJoinedUsers @ args ! 0 \<mapsto> Json_user (sd\<lparr>AssetBalance := AssetBalance sd - q'\<rparr>),
           varJoinedUsers @ args ! 1 \<mapsto> Json_user (rd\<lparr>AssetBalance := AssetBalance rd + q'\<rparr>))"
    by blast
  have qq: "q' = q"
    using q q' by simp
  have b0: "sb = AssetBalance sd" "rb = AssetBalance rd"
    using sb rb sd rd by (simp_all add: balance_of_def)
  have s1: "balance_of (world stub') (args ! 0) = Some (AssetBalance sd - q')"
    using ne by (simp add: w' balance_of_def user_record_def stored_def)
  have r1: "balance_of (world stub') (args ! 1) = Some (AssetBalance rd + q')"
    by (simp add: w' balance_of_def user_record_def stored_def)
  have eqs: "sb' = sb - q" "rb' = rb + q"
    using s1 r1 sb' rb' b0 qq by simp_all
  have s: "sint (sb - q) = sint sb - sint q"
    using no_overflow(3,4) by (simp add: sint_word_ariths signed_take_bit_int_eq_self)
  have r: "sint (rb + q) = sint rb + sint q"
    using no_overflow(1,2) by (simp add: sint_word_ariths signed_take_bit_int_eq_self)
  show ?thesis
    by (simp add: eqs s r)
qed

text \<open>
  C2. Non-negativity of every stored balance does not hold. \<^verbatim>\<open>transfer\<close> only checks that
  the sender's new balance is not negative; it accepts a negative quantity, which raises
  the sender's balance and lowers the receiver's without any check. On the ledger reached
  by \<^verbatim>\<open>Init\<close> and two joins (alice and bob hold 100 each), alice sends -150 to bob: the
  call returns a nil error, alice holds 250 and bob holds -50.
\<close>

theorem transfer_negative_quantity_overdraws_receiver:
  "fst (transfer ''alice'' ''user'' [''alice'', ''bob'', ''-150'']
          (invocation world_alice_bob ''alice'' no_faults)) = Return (Nil_bytes, None)
   \<and> balance_of world_alice_bob ''alice'' = Some 100
   \<and> balance_of world_alice_bob ''bob'' = Some 100
   \<and> balance_of (world (snd (transfer ''alice'' ''user'' [''alice'', ''bob'', ''-150'']
        (invocation world_alice_bob ''alice'' no_faults)))) ''alice'' = Some 250
   \<and> balance_of (world (snd (transfer ''alice'' ''user'' [''alice'', ''bob'', ''-150'']
        (invocation world_alice_bob ''alice'' no_faults)))) ''bob'' = Some (- 50)
   \<and> (- 50 :: 64 word) <s 0"
  by (simp add: transfer_def world_alice_bob_eq Atoi_def digit_of_def word_sless_alt scenario_defs)

text \<open>
  C3. The compensating write of \<^verbatim>\<open>transfer\<close> does not restore the sender's participant
  record. When the write of the sender's record succeeds and the write of the receiver's
  record fails, one more write is attempted, but its key is the bare sender id and not
  \<^verbatim>\<open>"_joinedUsers_" + senderId\<close>: the sender's record keeps the reduced balance while the
  panic message reports a successful rollback. Here alice sends 30 to bob and the store
  fails on the fifth accessor call (the receiver's write): afterwards alice's record
  holds 70, bob's holds 100, and the old record of alice sits under the key \<^verbatim>\<open>alice\<close>.
\<close>

theorem transfer_rollback_writes_other_key:
  "fst (transfer ''alice'' ''user'' [''alice'', ''bob'', ''30'']
          (invocation world_alice_bob ''alice'' (map_of [(4, ''store down'')])))
     = Panic (String_iface (transfer_msg_rolled_back ''bob'' ''store down'' 30 ''alice''))
   \<and> calls (snd (transfer ''alice'' ''user'' [''alice'', ''bob'', ''30'']
          (invocation world_alice_bob ''alice'' (map_of [(4, ''store down'')]))))
     = [GetState_call ''_joinedUsersIndex'',
        GetState_call ''_joinedUsers_alice'',
        GetState_call ''_joinedUsers_bob'',
        PutState_call ''_joinedUsers_alice''
          (Json_user \<lparr>Id_user = ''alice'', Role = ''user'', AssetBalance = 70\<rparr>),
        PutState_call ''_joinedUsers_bob''
          (Json_user \<lparr>Id_user = ''bob'', Role = ''user'', AssetBalance = 130\<rparr>),
        PutState_call ''alice''
          (Json_user \<lparr>Id_user = ''alice'', Role = ''user'', AssetBalance = 100\<rparr>)]
   \<and> balance_of world_alice_bob ''alice'' = Some 100
   \<and> balance_of (world (snd (transfer ''alice'' ''user'' [''alice'', ''bob'', ''30'']
        (invocation world_alice_bob ''alice'' (map_of [(4, ''store down'')]))))) ''alice'' = Some 70
   \<and> balance_of (world (snd (transfer ''alice'' ''user'' [''alice'', ''bob'', ''30'']
        (invocation world_alice_bob ''alice'' (map_of [(4, ''store down'')]))))) ''bob'' = Some 100"
  by (simp add: transfer_def world_alice_bob_eq Atoi_30 word_sless_alt scenario_defs)

text \<open>
  The same in general, for every transfer whose reads and sender write succeed and whose
  receiver write fails: exactly one more accessor call is made, a write of the sender's
  old record under the bare sender id; the sender's participant record stays debited and
  the receiver's unchanged; and when that last write fails as well, the panic is the
  inconsistency message, which contains the sender's balance from before the transfer.
\<close>

lemma transfer_compensation_log:
  assumes args: "args = [senderId, receiverId, quantity]"
    and ids: "strings_Index senderId ''_'' \<noteq> 0" "strings_Index receiverId ''_'' \<noteq> 0"
             "senderId \<noteq> receiverId"
    and q: "Atoi quantity = Some q"
    and idx: "joined_index (world stub) = Some xs" "senderId \<in> set xs" "receiverId \<in> set xs"
    and sd: "user_record (world stub) senderId = Some sd" "\<not> (AssetBalance sd - q <s 0)"
    and rd: "user_record (world stub) receiverId = Some rd"
    and reads: "faults stub (length (calls stub)) = None"
               "faults stub (length (calls stub) + 1) = None"
               "faults stub (length (calls stub) + 2) = None"
    and sender_write: "faults stub (length (calls stub) + 3) = None"
    and receiver_write: "faults stub (length (calls stub) + 4) = Some e"
  shows "calls (snd (transfer senderId userRole args stub))
           = calls stub @
             [GetState_call varJoinedUsersIndex,
              GetState_call (varJoinedUsers @ senderId),
              GetState_call (varJoinedUsers @ receiverId),
              PutState_call (varJoinedUsers @ senderId)
                (Json_user (sd\<lparr>AssetBalance := AssetBalance sd - q\<rparr>)),
              PutState_call (varJoinedUsers @ receiverId)
                (Json_user (rd\<lparr>AssetBalance := AssetBalance rd + q\<rparr>)),
              PutState_call senderId (Json_user sd)]"
    and "user_record (world (snd (transfer senderId userRole args stub))) senderId
           = Some (sd\<lparr>AssetBalance := AssetBalance sd - q\<rparr>)"
    and "user_record (world (snd (transfer senderId userRole args stub))) receiverId = Some rd"
    and "fst (transfer senderId userRole args stub) =
           (case faults stub (length (calls stub) + 5) of
              None \<Rightarrow> Panic (String_iface (transfer_msg_rolled_back receiverId e q senderId))
            | Some e2 \<Rightarrow> Panic (String_iface
                (transfer_msg_inconsistent receiverId e q senderId (AssetBalance sd) e2)))"
proof -
  have st: "json_Unmarshal_strings (stored (world stub) varJoinedUsersIndex) = Some xs"
    using idx(1) by (simp add: joined_index_def)
  have s0: "json_Unmarshal_user (stored (world stub) (varJoinedUsers @ senderId)) = Inr sd"
    using sd(1) by (simp add: user_record_def split: sum.splits)
  have r0: "json_Unmarshal_user (stored (world stub) (varJoinedUsers @ receiverId)) = Inr rd"
    using rd by (simp add: user_record_def split: sum.splits)
  have k: "senderId \<noteq> varJoinedUsers @ senderId" "senderId \<noteq> varJoinedUsers @ receiverId"
    using ids(1) by (auto simp add: varJoinedUsers_def strings_Index_underscore)
  note facts = args ids q st idx(2,3) s0 r0 sd(2) reads sender_write receiver_write k
  show "calls (snd (transfer senderId userRole args stub))
           = calls stub @
             [GetState_call varJoinedUsersIndex,
              GetState_call (varJoinedUsers @ senderId),
              GetState_call (varJoinedUsers @ receiverId),
              PutState_call (varJoinedUsers @ senderId)
                (Json_user (sd\<lparr>AssetBalance := AssetBalance sd - q\<rparr>)),
              PutState_call (varJoinedUsers @ receiverId)
                (Json_user (rd\<lparr>AssetBalance := AssetBalance rd + q\<rparr>)),
              PutState_call senderId (Json_user sd)]"
    using facts
    by (simp add: transfer_def getUserDetails_def GetState_eq PutState_eq Let_def
          membership_scan_iff json_Marshal_user_def eval_nat_numeral split: option.splits)
  show "user_record (world (snd (transfer senderId userRole args stub))) senderId
           = Some (sd\<lparr>AssetBalance := AssetBalance sd - q\<rparr>)"
    using facts
    by (simp add: transfer_def getUserDetails_def GetState_eq PutState_eq Let_def
          membership_scan_iff json_Marshal_user_def eval_nat_numeral user_record_def stored_def
          split: option.splits)
  show "user_record (world (snd (transfer senderId userRole args stub))) receiverId = Some rd"
    using facts
    by (simp add: transfer_def getUserDetails_def GetState_eq PutState_eq Let_def
          membership_scan_iff json_Marshal_user_def eval_nat_numeral user_record_def stored_def
          split: option.splits)
  show "fst (transfer senderId userRole args stub) =
           (case faults stub (length (calls stub) + 5) of
              None \<Rightarrow> Panic (String_iface (transfer_msg_rolled_back receiverId e q senderId))
            | Some e2 \<Rightarrow> Panic (String_iface
                (transfer_msg_inconsistent receiverId e q senderId (AssetBalance sd) e2)))"
    using facts
    by (simp add: transfer_def getUserDetails_def GetState_eq PutState_eq Let_def
          membership_scan_iff json_Marshal_user_def eval_nat_numeral split: option.splits)
qed

lemma transfer_msg_inconsistent_carries_balance:
  "\<exists>pre post. transfer_msg_inconsistent receiverId e q senderId balance e2
     = pre @ Itoa balance @ post"
  unfolding transfer_msg_inconsistent_def by (metis append.assoc)




subsection \<open>Query and Invoke\<close>

text \<open>
  C7. \<^verbatim>\<open>getassetbalance\<close> for an id that never joined does not return an error to the
  caller. The store has nothing under the id's key, \<^verbatim>\<open>GetState\<close> gives nil bytes and no
  error, \<^verbatim>\<open>json.Unmarshal\<close> fails on them and \<^verbatim>\<open>getUserDetails\<close> panics; \<^verbatim>\<open>Query\<close> has no
  recovery, so the panic leaves it. Only the part of the claim about writes holds: the one
  accessor call is a read. On the ledger just after \<^verbatim>\<open>Init\<close>:
\<close>

theorem getassetbalance_unknown_id_panics:
  "joined_index world_init = Some []
   \<and> world_init (varJoinedUsers @ ''ghost'') = None
   \<and> fst (Query ''getassetbalance'' [''ghost''] (invocation world_init ''admin'' no_faults))
       = Panic (String_iface
           ''ERROR: Failed to unmarshal User Information. Source: getUserDetails. Details: unexpected end of JSON input'')
   \<and> calls (snd (Query ''getassetbalance'' [''ghost''] (invocation world_init ''admin'' no_faults)))
       = [GetState_call ''_joinedUsers_ghost'']"
  by (simp add: Query_def world_init_eq scenario_defs)

text \<open>
  In general: a balance query for any id whose key holds nothing panics when the store
  answers the read; and no query ever changes the world state.
\<close>

lemma Query_getassetbalance_without_record:
  assumes "world stub (varJoinedUsers @ userId) = None"
    and "faults stub (length (calls stub)) = None"
  shows "Query ''getassetbalance'' [userId] stub
           = (Panic (String_iface
                (''ERROR: Failed to unmarshal User Information. Source: getUserDetails. Details: ''
                 @ ''unexpected end of JSON input'')),
              stub\<lparr>calls := calls stub @ [GetState_call (varJoinedUsers @ userId)]\<rparr>)"
  using assms
  by (simp add: Query_def getUserDetails_def GetState_eq stored_def)

lemma Query_never_writes:
  "world (snd (Query function_name args stub)) = world stub"
  by (simp add: Query_def getUserDetails_def GetState_eq
        split: option.splits sum.splits)

text \<open>
  C9. The bootstrap identity cannot perform the first join. \<^verbatim>\<open>join\<close> itself lets the
  invoker \<^verbatim>\<open>admin\<close> pass its authorisation check without a role, and called directly it
  joins alice; but \<^verbatim>\<open>join\<close> is only reached through \<^verbatim>\<open>Invoke\<close>, which first reads the
  invoker's participant record with \<^verbatim>\<open>getUserDetails\<close>. For an identity without a record,
  \<^verbatim>\<open>admin\<close> included, that call panics, the deferred function turns the panic into an
  error, and the dispatch is never reached. On the ledger just after \<^verbatim>\<open>Init\<close>:
\<close>

theorem bootstrap_identity_cannot_join_through_Invoke:
  "user_record world_init ''admin'' = None
   \<and> fst (join ''admin'' [] [''alice'', ''user''] (invocation world_init ''admin'' no_faults))
       = Return (Nil_bytes, None)
   \<and> fst (Invoke ''join'' [''alice'', ''user''] (invocation world_init ''admin'' no_faults))
       = Return (Nil_bytes,
           Some ''ERROR: Source: Invoke. Details: ERROR: Failed to unmarshal User Information. Source: getUserDetails. Details: unexpected end of JSON input'')
   \<and> calls (snd (Invoke ''join'' [''alice'', ''user''] (invocation world_init ''admin'' no_faults)))
       = [GetState_call ''_joinedUsers_admin'']
   \<and> world (snd (Invoke ''join'' [''alice'', ''user''] (invocation world_init ''admin'' no_faults)))
       = world_init"
  by (simp add: Invoke_def Invoke_body_def Invoke_deferred_def assert_string_def
        getUsernameFromEcert_def Invoke_errorHeader_def join_def world_init_eq scenario_defs)

text \<open>
  In general: whatever function is invoked, an invoker whose key holds no record gets
  this error back from \<^verbatim>\<open>Invoke\<close>, and the only accessor call made is the read of that
  key. The dispatch is never reached.
\<close>

lemma Invoke_without_record:
  assumes "username_attr stub = Inr userId"
    and "world stub (varJoinedUsers @ userId) = None"
    and "faults stub (length (calls stub)) = None"
  shows "Invoke function_name args stub
           = (Return (Nil_bytes,
                Some (Invoke_errorHeader @ ''Details: ''
                  @ ''ERROR: Failed to unmarshal User Information. Source: getUserDetails. Details: ''
                  @ ''unexpected end of JSON input'')),
              stub\<lparr>calls := calls stub @ [GetState_call (varJoinedUsers @ userId)]\<rparr>)"
  using assms
  by (simp add: Invoke_def Invoke_body_def Invoke_deferred_def assert_string_def
        getUsernameFromEcert_def getUserDetails_def GetState_eq stored_def)

text \<open>
  C10. The type assertion in the deferred function of \<^verbatim>\<open>Invoke\<close> fails whenever the body
  did not panic: \<^verbatim>\<open>recover()\<close> is nil then, and nil does not hold a string. Here alice, who
  has a record, invokes \<^verbatim>\<open>init\<close>: the body returns a nil error and \<^verbatim>\<open>Invoke\<close> panics with
  the run-time error of the failed assertion.
\<close>

theorem Invoke_deferred_panics_after_normal_return:
  "Invoke_deferred Nil_iface = Panic (Runtime_iface TypeAssertionError)
   \<and> fst (Invoke_body ''init'' [] (invocation world_alice ''alice'' no_faults))
       = Return (Nil_bytes, None)
   \<and> fst (Invoke ''init'' [] (invocation world_alice ''alice'' no_faults))
       = Panic (Runtime_iface TypeAssertionError)"
  by (simp add: Invoke_def Invoke_body_def Invoke_deferred_def assert_string_def
        getUsernameFromEcert_def Init_def world_alice_eq scenario_defs)

text \<open>In fact no invocation at all leaves \<^verbatim>\<open>Invoke\<close> with a nil error.\<close>

lemma Invoke_never_returns_nil_error:
  "fst (Invoke function_name args stub) \<noteq> Return (payload, None)"
  by (simp add: Invoke_def Invoke_deferred_def assert_string_def
        split: prod.splits outcome.splits iface.splits)

subsection \<open>The chaincode without roles\<close>

text \<open>
  The properties above are stated for the role-gated chaincode. This part records what
  the older chaincode without roles does on the same points.
\<close>

lemmas plain_defs =
  joinedUsersStr_def initialAssetBalance_plain_def Unmarshal_index_unchecked_def

lemma world_init_plain_eq:
  "world_init_plain = (\<lambda>k. if k = ''_joinedUsers'' then Some Json_null else None)"
  by (rule ext) (simp add: world_init_plain_def Init_plain_def plain_defs scenario_defs)

lemma world_alice_plain_eq:
  "world_alice_plain =
     (\<lambda>k. if k = ''_joinedUsers'' then Some (Json_strings [''alice''])
          else if k = ''alice'' then Some (Json_number ''100'')
          else None)"
  by (rule ext)
     (simp add: world_alice_plain_def world_init_plain_eq join_plain_def plain_defs scenario_defs)

lemma world_alice_bob_plain_eq:
  "world_alice_bob_plain =
     (\<lambda>k. if k = ''_joinedUsers'' then Some (Json_strings [''alice'', ''bob''])
          else if k = ''alice'' then Some (Json_number ''100'')
          else if k = ''bob'' then Some (Json_number ''100'')
          else None)"
  by (rule ext)
     (simp add: world_alice_bob_plain_def world_alice_plain_eq join_plain_def plain_defs
        scenario_defs)

text \<open>
  Conservation (C1) holds here too: a transfer that returns a nil error has read two
  decimal balances and has written the sender's less the quantity and the receiver's plus
  the quantity (in 64-bit arithmetic).
\<close>

lemma transfer_plain_success:
  assumes "transfer_plain args stub = ((payload, None), stub')"
  shows "\<exists>q sb rb. length args = 3 \<and> args ! 0 \<noteq> args ! 1
           \<and> Atoi (args ! 2) = Some q
           \<and> Atoi_bytes (stored (world stub) (args ! 0)) = Some sb
           \<and> Atoi_bytes (stored (world stub) (args ! 1)) = Some rb
           \<and> \<not> (sb - q <s 0)
           \<and> world stub' = (world stub)
                (args ! 0 \<mapsto> Json_number (Itoa (sb - q)),
                 args ! 1 \<mapsto> Json_number (Itoa (rb + q)))"
  using assms
  by (auto simp add: transfer_plain_def GetState_eq PutState_eq Let_def
        split: if_splits option.splits)

lemma transfer_plain_conserves_total:
  assumes "transfer_plain args stub = ((payload, None), stub')"
  shows "\<exists>q sb rb sb' rb'.
           Atoi (args ! 2) = Some q
         \<and> Atoi_bytes (stored (world stub) (args ! 0)) = Some sb
         \<and> Atoi_bytes (stored (world stub) (args ! 1)) = Some rb
         \<and> Atoi_bytes (stored (world stub') (args ! 0)) = Some sb'
         \<and> Atoi_bytes (stored (world stub') (args ! 1)) = Some rb'
         \<and> sb' = sb - q \<and> rb' = rb + q
         \<and> sb + rb = sb' + rb'"
proof -
  from transfer_plain_success [OF assms] obtain q sb rb where
    q: "Atoi (args ! 2) = Some q" and
    ne: "args ! 0 \<noteq> args ! 1" and
    sb: "Atoi_bytes (stored (world stub) (args ! 0)) = Some sb" and
    rb: "Atoi_bytes (stored (world stub) (args ! 1)) = Some rb" and
    w': "world stub' = (world stub)
          (args ! 0 \<mapsto> Json_number (Itoa (sb - q)), args ! 1 \<mapsto> Json_number (Itoa (rb + q)))"
    by blast
  have s': "Atoi_bytes (stored (world stub') (args ! 0)) = Some (sb - q)"
    using ne by (simp add: w' stored_def Atoi_Itoa)
  have r': "Atoi_bytes (stored (world stub') (args ! 1)) = Some (rb + q)"
    by (simp add: w' stored_def Atoi_Itoa)
  show ?thesis
    using q sb rb s' r' by simp
qed

lemma Itoa_values:
  "Itoa 70 = ''70''" "Itoa 130 = ''130''" "Itoa 250 = ''250''" "Itoa (- 50) = ''-50''"
  by code_simp+

text \<open>Non-negativity (C2) fails here in the same way: alice sends -150 to bob.\<close>

lemma transfer_plain_negative_quantity:
  "fst (transfer_plain [''alice'', ''bob'', ''-150'']
          (invocation world_alice_bob_plain ''alice'' no_faults)) = (Nil_bytes, None)
   \<and> world (snd (transfer_plain [''alice'', ''bob'', ''-150'']
        (invocation world_alice_bob_plain ''alice'' no_faults))) ''alice''
       = Some (Json_number ''250'')
   \<and> world (snd (transfer_plain [''alice'', ''bob'', ''-150'']
        (invocation world_alice_bob_plain ''alice'' no_faults))) ''bob''
       = Some (Json_number ''-50'')"
  by (simp add: transfer_plain_def world_alice_bob_plain_eq Atoi_def digit_of_def
        word_sless_alt Itoa_values plain_defs scenario_defs)

text \<open>
  Compensation (C3): here no compensating write is attempted at all, because the rollback
  stands after the \<^verbatim>\<open>return\<close> of the error. The failed write of the receiver's balance is
  the last accessor call, and the sender stays debited.
\<close>

lemma transfer_plain_no_compensation:
  "fst (transfer_plain [''alice'', ''bob'', ''30'']
          (invocation world_alice_bob_plain ''alice'' (map_of [(4, ''store down'')])))
     = (Nil_bytes, Some (Update_receiver_failed ''bob'' ''store down''))
   \<and> calls (snd (transfer_plain [''alice'', ''bob'', ''30'']
          (invocation world_alice_bob_plain ''alice'' (map_of [(4, ''store down'')]))))
     = [GetState_call ''_joinedUsers'', GetState_call ''alice'', GetState_call ''bob'',
        PutState_call ''alice'' (Json_number ''70''),
        PutState_call ''bob'' (Json_number ''130'')]
   \<and> world (snd (transfer_plain [''alice'', ''bob'', ''30'']
          (invocation world_alice_bob_plain ''alice'' (map_of [(4, ''store down'')])))) ''alice''
     = Some (Json_number ''70'')
   \<and> world (snd (transfer_plain [''alice'', ''bob'', ''30'']
          (invocation world_alice_bob_plain ''alice'' (map_of [(4, ''store down'')])))) ''bob''
     = Some (Json_number ''100'')"
  by (simp add: transfer_plain_def world_alice_bob_plain_eq Atoi_def digit_of_def
        word_sless_alt Itoa_values plain_defs scenario_defs)

text \<open>
  The balance query (C7): for an id whose key holds nothing it returns nil bytes and a
  nil error, that is a success with an empty payload.
\<close>

lemma Query_plain_unknown_id:
  assumes "world stub userId = None" and "faults stub (length (calls stub)) = None"
  shows "Query_plain ''getassetbalance'' [userId] stub
           = ((Nil_bytes, None), stub\<lparr>calls := calls stub @ [GetState_call userId]\<rparr>)"
  using assms by (simp add: Query_plain_def GetState_eq stored_def)

text \<open>
  The order of the writes of a join (C4) is the reverse here: the index is written
  before the balance, and when the write of the balance fails nothing is undone, so the
  id stays in the index without a balance.
\<close>

lemma join_plain_write_order:
  assumes "length args = 1"
    and "strings_Index (args ! 0) ''_'' \<noteq> 0"
    and "faults stub (length (calls stub)) = None"
    and "\<not> previously_joined
            (Unmarshal_index_unchecked (stored (world stub) joinedUsersStr)) (args ! 0)"
    and "faults stub (length (calls stub) + 1) = None"
  shows "calls (snd (join_plain args stub))
           = calls stub @
             [GetState_call joinedUsersStr,
              PutState_call joinedUsersStr
                (json_Marshal_strings
                   (Unmarshal_index_unchecked (stored (world stub) joinedUsersStr)
                    @ [args ! 0])),
              PutState_call (args ! 0) (Json_number ''100'')]"
    and "faults stub (length (calls stub) + 2) = Some e \<Longrightarrow>
           fst (join_plain args stub) = (Nil_bytes, Some Initialize_balance_failed)
           \<and> world (snd (join_plain args stub)) joinedUsersStr
               = Some (json_Marshal_strings
                   (Unmarshal_index_unchecked (stored (world stub) joinedUsersStr)
                    @ [args ! 0]))"
  using assms
  by (auto simp add: join_plain_def GetState_eq PutState_eq Let_def initialAssetBalance_plain_def
        eval_nat_numeral split: option.splits)

text \<open>
  The scenario of C8 through the entry points of this chaincode, whose join takes the id
  only: \<^verbatim>\<open>init\<close>, \<^verbatim>\<open>join("alice")\<close>, then the balance query gives \<^verbatim>\<open>100\<close>. With the two
  arguments of the role-gated join the call is refused for its number of arguments.
\<close>

lemma plain_scenario_balance_100:
  "fst (Invoke_plain ''init'' [] (invocation Map.empty ''admin'' no_faults)) = (Nil_bytes, None)
   \<and> fst (Invoke_plain ''join'' [''alice''] (invocation world_init_plain ''admin'' no_faults))
       = (Nil_bytes, None)
   \<and> fst (Query_plain ''getassetbalance'' [''alice'']
            (invocation world_alice_plain ''alice'' no_faults))
       = (Json_number ''100'', None)
   \<and> fst (Invoke_plain ''join'' [''alice'', ''user'']
            (invocation world_init_plain ''admin'' no_faults))
       = (Nil_bytes, Some Join_argument_count)"
  by (simp add: Invoke_plain_def Init_plain_def join_plain_def Query_plain_def
        world_init_plain_eq world_alice_plain_eq plain_defs scenario_defs)

end
